theory Spec2Isabelle
  imports Main "HOL-Library.Word"
begin

unbundle bit_operations_syntax

section \<open>The event ring of \<^verbatim>\<open>category/core/event/event_ring.h\<close>\<close>

text \<open>
  The event ring is a shared-memory broadcast buffer with one writer and many readers.
  This theory embeds the structures of \<^verbatim>\<open>event_ring.h\<close> and its four inline reader
  functions, \<^verbatim>\<open>monad_event_ring_try_copy\<close>, \<^verbatim>\<open>monad_event_ring_payload_peek\<close>,
  \<^verbatim>\<open>monad_event_ring_payload_check\<close> and \<^verbatim>\<open>monad_event_ring_payload_memcpy\<close>. The functions
  that initialise and map a ring, and the writer, are declared in the header but defined
  elsewhere; they are modelled from the specification where a property needs them.

  Fixed-width C integers are words: \<^verbatim>\<open>uint64_t\<close> and \<^verbatim>\<open>size_t\<close> are \<open>64 word\<close>, and so on.
  A pointer is the 64-bit address it holds.
\<close>

type_synonym u8 = "8 word"
type_synonym u16 = "16 word"
type_synonym u32 = "32 word"
type_synonym u64 = "64 word"
type_synonym addr = "64 word"

subsection \<open>Structures\<close>

text \<open>\<^verbatim>\<open>struct monad_event_ring\<close>: a ring mapped into the address space of the process.\<close>

record monad_event_ring =
  mmap_prot :: "32 word"
  header :: addr
  descriptors :: addr
  payload_buf :: addr
  context_area :: addr
  desc_capacity_mask :: u64
  payload_buf_mask :: u64

text \<open>
  \<^verbatim>\<open>struct monad_event_descriptor\<close>. The unnamed bit-field \<^verbatim>\<open>uint16_t : 16\<close> between
  \<open>event_type\<close> and \<open>payload_size\<close> is not a member and carries no value; \<open>content_ext\<close>
  is the array \<^verbatim>\<open>uint64_t content_ext[4]\<close>.
\<close>

record monad_event_descriptor =
  seqno :: u64
  event_type :: u16
  payload_size :: u32
  record_epoch_nanos :: u64
  payload_buf_offset :: u64
  content_ext :: "u64 list"

text \<open>\<^verbatim>\<open>struct monad_event_ring_size\<close> (\<^verbatim>\<open>size_t\<close> is 64 bits wide).\<close>

record monad_event_ring_size =
  descriptor_capacity :: u64
  payload_buf_size :: u64
  context_area_size :: u64

text \<open>\<^verbatim>\<open>struct monad_event_ring_control\<close>.\<close>

record monad_event_ring_control =
  last_seqno :: u64
  next_payload_byte :: u64
  buffer_window_start :: u64

text \<open>\<^verbatim>\<open>enum monad_event_content_type : uint16_t\<close>.\<close>

datatype monad_event_content_type =
    MONAD_EVENT_CONTENT_TYPE_NONE
  | MONAD_EVENT_CONTENT_TYPE_TEST
  | MONAD_EVENT_CONTENT_TYPE_EXEC
  | MONAD_EVENT_CONTENT_TYPE_COUNT

text \<open>
  \<^verbatim>\<open>struct monad_event_ring_header\<close>. The member \<^verbatim>\<open>size\<close> is called \<open>size_s\<close> here, since
  \<open>size\<close> is a constant of HOL.
\<close>

record monad_event_ring_header =
  magic :: "u8 list"
  content_type :: monad_event_content_type
  schema_hash :: "u8 list"
  size_s :: monad_event_ring_size
  control :: monad_event_ring_control

subsection \<open>Shared memory as a reader observes it\<close>

text \<open>
  The ring lives in memory that the writer, in another thread or process, changes while a
  reader runs. A value of type \<open>shm\<close> is that memory at one instant:
  \<^item> \<open>hdr_at p\<close> is the header object at address \<open>p\<close>;
  \<^item> \<open>desc_at p i\<close> is element \<open>i\<close> of the descriptor array that starts at address \<open>p\<close>;
  \<^item> \<open>byte_at a\<close> is the byte at address \<open>a\<close>.

  A reader function that accesses shared memory several times takes one \<open>shm\<close> for each
  access, in program order: what it observes at each access is an input. The sequential
  behaviour is the special case where all of them are equal. Readers never write to shared
  memory; what they write (the output descriptor, the destination buffer) is private to
  the caller and is passed in and returned explicitly.
\<close>

record shm =
  hdr_at :: "addr \<Rightarrow> monad_event_ring_header"
  desc_at :: "addr \<Rightarrow> u64 \<Rightarrow> monad_event_descriptor"
  byte_at :: "addr \<Rightarrow> u8"

subsection \<open>Constants\<close>

definition MONAD_EVENT_RING_HEADER_VERSION :: "u8 list" where
  "MONAD_EVENT_RING_HEADER_VERSION =
     [of_char CHR ''R'', of_char CHR ''I'', of_char CHR ''N'', of_char CHR ''G'',
      of_char CHR ''0'', of_char CHR ''1'']"

definition MONAD_EVENT_MIN_DESCRIPTORS_SHIFT :: u8 where
  "MONAD_EVENT_MIN_DESCRIPTORS_SHIFT = 16"

definition MONAD_EVENT_MAX_DESCRIPTORS_SHIFT :: u8 where
  "MONAD_EVENT_MAX_DESCRIPTORS_SHIFT = 32"

definition MONAD_EVENT_MIN_PAYLOAD_BUF_SHIFT :: u8 where
  "MONAD_EVENT_MIN_PAYLOAD_BUF_SHIFT = 27"

definition MONAD_EVENT_MAX_PAYLOAD_BUF_SHIFT :: u8 where
  "MONAD_EVENT_MAX_PAYLOAD_BUF_SHIFT = 40"

subsection \<open>The inline reader functions\<close>

text \<open>
  \<^verbatim>\<open>monad_event_ring_try_copy(event_ring, seqno, event)\<close>. The parameter \<^verbatim>\<open>seqno\<close> is
  called \<open>sq\<close>, the name \<open>seqno\<close> being the descriptor's field. The function returns the
  \<^verbatim>\<open>bool\<close> together with the value of \<^verbatim>\<open>*event\<close> when it returns; \<open>event\<close> is the value of
  \<^verbatim>\<open>*event\<close> at the call. \<open>m_copy\<close> is the shared memory read by the structure assignment
  \<^verbatim>\<open>*event = *ring_event\<close>, \<open>m_load\<close> the shared memory read by the atomic load of
  \<^verbatim>\<open>ring_event->seqno\<close> that follows it. The index of the slot is at most
  \<open>desc_capacity_mask\<close>, so it lies within the descriptor array of a mapped ring.
\<close>

definition monad_event_ring_try_copy ::
  "shm \<Rightarrow> shm \<Rightarrow> monad_event_ring \<Rightarrow> u64 \<Rightarrow> monad_event_descriptor
     \<Rightarrow> bool \<times> monad_event_descriptor" where
  "monad_event_ring_try_copy m_copy m_load event_ring sq event =
     (if sq = 0 then (False, event)
      else
        let idx = (sq - 1) AND desc_capacity_mask event_ring;
            event' = desc_at m_copy (descriptors event_ring) idx;
            ring_seqno = seqno (desc_at m_load (descriptors event_ring) idx)
        in if ring_seqno \<noteq> sq then (False, event') else (True, event'))"

text \<open>\<^verbatim>\<open>monad_event_ring_payload_peek\<close>: pointer arithmetic on \<^verbatim>\<open>uint8_t *\<close>, no memory access.\<close>

definition monad_event_ring_payload_peek ::
  "monad_event_ring \<Rightarrow> monad_event_descriptor \<Rightarrow> addr" where
  "monad_event_ring_payload_peek event_ring event =
     payload_buf event_ring + (payload_buf_offset event AND payload_buf_mask event_ring)"

text \<open>
  \<^verbatim>\<open>monad_event_ring_payload_check\<close>: one atomic load of
  \<^verbatim>\<open>event_ring->header->control.buffer_window_start\<close> from the shared memory \<open>m\<close>, compared
  as unsigned 64-bit integers.
\<close>

definition monad_event_ring_payload_check ::
  "shm \<Rightarrow> monad_event_ring \<Rightarrow> monad_event_descriptor \<Rightarrow> bool" where
  "monad_event_ring_payload_check m event_ring event =
     (payload_buf_offset event \<ge> buffer_window_start (control (hdr_at m (header event_ring))))"

text \<open>
  The library function \<^verbatim>\<open>memcpy(dst, src, n)\<close>: byte \<open>k\<close> of the source, read from \<open>smem\<close>,
  is stored at byte \<open>k\<close> of the destination in \<open>dmem\<close>, for the \<open>n\<close> bytes \<open>k = 0, ..., n - 1\<close>.
\<close>

primrec memcpy :: "(addr \<Rightarrow> u8) \<Rightarrow> addr \<Rightarrow> (addr \<Rightarrow> u8) \<Rightarrow> addr \<Rightarrow> nat \<Rightarrow> (addr \<Rightarrow> u8)" where
  "memcpy dmem dst smem src 0 = dmem"
| "memcpy dmem dst smem src (Suc k) =
     (memcpy dmem dst smem src k)(dst + of_nat k := smem (src + of_nat k))"

text \<open>
  \<^verbatim>\<open>monad_event_ring_payload_memcpy(event_ring, event, dst, n)\<close>. \<open>mem\<close> is the caller's
  private memory, which holds the destination buffer; the function returns the pointer
  (\<open>None\<close> for \<^verbatim>\<open>nullptr\<close>) and that memory when it returns; \<open>dst\<close> is a valid pointer,
  as \<^verbatim>\<open>memcpy\<close> requires. \<open>m1\<close>, \<open>m2\<close> and \<open>m3\<close> are the shared memory at the first window
  check, during the copy and at the second window check; the copy reads all its bytes from
  the one state \<open>m2\<close>.
\<close>

definition monad_event_ring_payload_memcpy ::
  "shm \<Rightarrow> shm \<Rightarrow> shm \<Rightarrow> monad_event_ring \<Rightarrow> monad_event_descriptor
     \<Rightarrow> (addr \<Rightarrow> u8) \<Rightarrow> addr \<Rightarrow> u64 \<Rightarrow> addr option \<times> (addr \<Rightarrow> u8)" where
  "monad_event_ring_payload_memcpy m1 m2 m3 event_ring event mem dst n =
     (if \<not> monad_event_ring_payload_check m1 event_ring event then (None, mem)
      else
        let src = monad_event_ring_payload_peek event_ring event;
            mem' = memcpy mem dst (byte_at m2) src (unat n)
        in if \<not> monad_event_ring_payload_check m3 event_ring event then (None, mem')
           else (Some dst, mem'))"

subsection \<open>Initialisation and mapping\<close>

text \<open>
  \<^verbatim>\<open>event_ring.h\<close> declares \<^verbatim>\<open>monad_event_ring_init_size\<close>, \<^verbatim>\<open>monad_event_ring_init_file\<close>
  and \<^verbatim>\<open>monad_event_ring_mmap\<close> and defines the constants they use; their bodies are in
  another translation unit.
\<close>

text \<open>
  Modelled from the spec: the error kinds of initialisation and mapping, which the
  specification lists; the functions themselves return an \<^verbatim>\<open>int\<close>.
\<close>

datatype ring_error =
    InvalidSize
  | BadFile
  | IoError
  | AlreadyInitialized
  | BadMagic
  | SchemaMismatch

text \<open>
  Modelled from the spec: the body of \<^verbatim>\<open>monad_event_ring_init_size\<close> is missing, the
  header has its declaration and the four shift limits only. The specification says: given
  \<open>descriptors_shift\<close>, \<open>payload_buf_shift\<close> and \<open>context_large_pages\<close>, produce a size
  structure iff the shifts fall within the documented bounds; an out-of-range shift fails
  with \<open>InvalidSize\<close>; \<open>descriptor_capacity\<close> and \<open>payload_buf_size\<close> are two to the power
  of their shift; \<open>context_area_size\<close> is sized in large pages. The size of a large page
  is not stated and is the parameter \<open>large_page\<close>.
\<close>

definition monad_event_ring_init_size ::
  "u64 \<Rightarrow> u8 \<Rightarrow> u8 \<Rightarrow> u16 \<Rightarrow> ring_error + monad_event_ring_size" where
  "monad_event_ring_init_size large_page descriptors_shift payload_buf_shift context_large_pages =
     (if descriptors_shift < MONAD_EVENT_MIN_DESCRIPTORS_SHIFT \<or>
         descriptors_shift > MONAD_EVENT_MAX_DESCRIPTORS_SHIFT then Inl InvalidSize
      else if payload_buf_shift < MONAD_EVENT_MIN_PAYLOAD_BUF_SHIFT \<or>
              payload_buf_shift > MONAD_EVENT_MAX_PAYLOAD_BUF_SHIFT then Inl InvalidSize
      else Inr \<lparr>descriptor_capacity = 2 ^ unat descriptors_shift,
                payload_buf_size = 2 ^ unat payload_buf_shift,
                context_area_size = ucast context_large_pages * large_page\<rparr>)"

text \<open>The descriptor of a slot that was never written: every field is zero.\<close>

definition zero_descriptor :: monad_event_descriptor where
  "zero_descriptor =
     \<lparr>seqno = 0, event_type = 0, payload_size = 0, record_epoch_nanos = 0,
      payload_buf_offset = 0, content_ext = [0, 0, 0, 0]\<rparr>"

text \<open>
  Modelled from the spec: the part of a ring file that initialisation writes, the header
  and the descriptor array.
\<close>

record ring_image =
  image_header :: monad_event_ring_header
  image_descriptors :: "u64 \<Rightarrow> monad_event_descriptor"

text \<open>
  Modelled from the spec: the body of \<^verbatim>\<open>monad_event_ring_init_file\<close> is missing. The
  specification says: it writes a fresh header with magic \<open>RINGvv\<close> (\<open>vv\<close> the current
  version octets), zeroed descriptors, a zeroed control block, and the supplied
  \<open>content_type\<close> and \<open>schema_hash\<close>; it fails with \<open>BadFile\<close> or \<open>IoError\<close>, and with
  \<open>AlreadyInitialized\<close> when the magic is present and matches. \<open>io_failure\<close> is the
  outcome of the file operations (\<open>None\<close> when they succeed), \<open>old\<close> the content of the
  file region before the call.
\<close>

definition monad_event_ring_init_file ::
  "monad_event_ring_size \<Rightarrow> monad_event_content_type \<Rightarrow> u8 list \<Rightarrow> ring_error option
     \<Rightarrow> ring_image \<Rightarrow> ring_error + ring_image" where
  "monad_event_ring_init_file ring_size ctype hash io_failure old =
     (case io_failure of
        Some e \<Rightarrow> Inl e
      | None \<Rightarrow>
          if magic (image_header old) = MONAD_EVENT_RING_HEADER_VERSION
          then Inl AlreadyInitialized
          else Inr \<lparr>image_header =
                      \<lparr>magic = MONAD_EVENT_RING_HEADER_VERSION,
                       content_type = ctype,
                       schema_hash = hash,
                       size_s = ring_size,
                       control = \<lparr>last_seqno = 0, next_payload_byte = 0,
                                  buffer_window_start = 0\<rparr>\<rparr>,
                    image_descriptors = (\<lambda>_. zero_descriptor)\<rparr>)"

text \<open>
  Modelled from the spec: the body of \<^verbatim>\<open>monad_event_ring_mmap\<close> is missing. The
  specification says that on map the implementation must verify the magic/version octets
  exactly, and lists \<open>BadMagic\<close> among the header validation errors. Only this check of
  the mapping is modelled.
\<close>

definition mmap_verify_magic :: "monad_event_ring_header \<Rightarrow> ring_error + unit" where
  "mmap_verify_magic h =
     (if magic h = MONAD_EVENT_RING_HEADER_VERSION then Inr () else Inl BadMagic)"

text \<open>The value of an enumerator of \<^verbatim>\<open>enum monad_event_content_type\<close>.\<close>

fun content_type_code :: "monad_event_content_type \<Rightarrow> u16" where
  "content_type_code MONAD_EVENT_CONTENT_TYPE_NONE = 0"
| "content_type_code MONAD_EVENT_CONTENT_TYPE_TEST = 1"
| "content_type_code MONAD_EVENT_CONTENT_TYPE_EXEC = 2"
| "content_type_code MONAD_EVENT_CONTENT_TYPE_COUNT = 3"

text \<open>The \<open>n\<close> low bytes of a word, least significant first.\<close>

primrec le_bytes :: "nat \<Rightarrow> 'a::len word \<Rightarrow> u8 list" where
  "le_bytes 0 w = []"
| "le_bytes (Suc n) w = ucast w # le_bytes n (drop_bit 8 w)"

text \<open>
  Modelled from the spec: the file format table of the specification gives the first 64
  bytes of the header as the magic at offset 0 (6 bytes), \<open>content_type\<close> at offset 6
  (little-endian, 2 bytes), the schema hash at offset 8 (32 bytes) and the size structure at
  offset 40 (three little-endian 64-bit integers).
\<close>

definition header_bytes :: "monad_event_ring_header \<Rightarrow> u8 list" where
  "header_bytes h =
     magic h @ le_bytes 2 (content_type_code (content_type h)) @ schema_hash h @
     le_bytes 8 (descriptor_capacity (size_s h)) @
     le_bytes 8 (payload_buf_size (size_s h)) @
     le_bytes 8 (context_area_size (size_s h))"

subsection \<open>The writer\<close>

text \<open>
  \<^verbatim>\<open>event_ring.h\<close> defines the two constants of the writer's allocation and the kinds of
  recording error; the recorder itself is only declared
  (\<^verbatim>\<open>struct monad_event_recorder\<close>, \<^verbatim>\<open>monad_event_ring_init_recorder\<close>).
\<close>

definition MONAD_EVENT_WINDOW_INCR :: u64 where
  "MONAD_EVENT_WINDOW_INCR = push_bit 24 1"

definition MONAD_EVENT_PAYLOAD_ALIGN :: u64 where
  "MONAD_EVENT_PAYLOAD_ALIGN = 16"

text \<open>\<^verbatim>\<open>enum monad_event_record_error_type : uint16_t\<close>.\<close>

datatype monad_event_record_error_type =
    MONAD_EVENT_RECORD_ERROR_NONE
  | MONAD_EVENT_RECORD_ERROR_OVERFLOW_4GB
  | MONAD_EVENT_RECORD_ERROR_OVERFLOW_EXPIRE
  | MONAD_EVENT_RECORD_ERROR_MISSING_EVENT

text \<open>
  Modelled from the spec: step 2 of the reservation protocol rounds the next payload byte
  up to the payload alignment.
\<close>

definition round_up_align :: "u64 \<Rightarrow> u64" where
  "round_up_align x =
     ((x + (MONAD_EVENT_PAYLOAD_ALIGN - 1)) div MONAD_EVENT_PAYLOAD_ALIGN)
       * MONAD_EVENT_PAYLOAD_ALIGN"

text \<open>
  Modelled from the spec: step 6 of the reservation protocol copies the event bytes to
  \<open>payload_buf + (off mod payload_buf_size)\<close> and wraps at the end of the buffer, so the
  byte at unwrapped offset \<open>off + i\<close> is stored at \<open>payload_buf + ((off + i) mod
  payload_buf_size)\<close>.
\<close>

primrec write_payload :: "(addr \<Rightarrow> u8) \<Rightarrow> addr \<Rightarrow> u64 \<Rightarrow> u64 \<Rightarrow> u8 list \<Rightarrow> (addr \<Rightarrow> u8)" where
  "write_payload mem pb bsz off [] = mem"
| "write_payload mem pb bsz off (b # bs) =
     write_payload (mem(pb + (off mod bsz) := b)) pb bsz (off + 1) bs"

text \<open>
  Modelled from the spec: the code of the recorder is missing. The reservation protocol of
  the specification records an event with a payload of length \<open>P\<close> in these steps:
  \<^item> the new sequence number \<open>s\<close> is \<open>last_seqno + 1\<close>, the slot \<open>(s - 1) mod
    descriptor_capacity\<close>;
  \<^item> \<open>off\<close> is \<open>next_payload_byte\<close> rounded up to the payload alignment, and
    \<open>next_payload_byte\<close> advances to \<open>off + P\<close>;
  \<^item> if \<open>P > 2 ^ 32 - 1\<close>, the event is dropped with the error kind \<open>OVERFLOW_4GB\<close>;
  \<^item> if \<open>(off + P) >> 24\<close> is above \<open>buffer_window_start >> 24\<close>, the new
    \<open>buffer_window_start\<close> is \<open>(off + P) - payload_buf_size + WINDOW_INCR\<close>;
  \<^item> if \<open>P \<ge> payload_buf_size - WINDOW_INCR\<close>, the event is dropped with the error kind
    \<open>OVERFLOW_EXPIRE\<close>;
  \<^item> the payload is written, then the descriptor body (\<open>event_type\<close>, \<open>payload_size = P\<close>,
    \<open>record_epoch_nanos\<close>, \<open>payload_buf_offset = off\<close>, \<open>content_ext\<close>), and last the
    store of \<open>seqno = s\<close> publishes the event.

  \<open>recorder_record\<close> gives the shared memory once the event is published. Where the event
  is dropped the result is the error kind alone: the \<open>RECORD_ERROR\<close> event that the writer
  emits in its place is not modelled. The states between the writer's single stores are
  not modelled either.
\<close>

definition recorder_record ::
  "monad_event_ring \<Rightarrow> shm \<Rightarrow> u16 \<Rightarrow> u8 list \<Rightarrow> u64 \<Rightarrow> u64 list
     \<Rightarrow> monad_event_record_error_type + shm" where
  "recorder_record event_ring m etype payload epoch_nanos ext =
     (let hdr = hdr_at m (header event_ring);
          ctl = control hdr;
          cap = descriptor_capacity (size_s hdr);
          bsz = payload_buf_size (size_s hdr);
          s = last_seqno ctl + 1;
          slot = (s - 1) mod cap;
          off = round_up_align (next_payload_byte ctl);
          p_end = off + of_nat (length payload);
          bws = buffer_window_start ctl;
          bws' = (if drop_bit 24 p_end > drop_bit 24 bws
                  then p_end - bsz + MONAD_EVENT_WINDOW_INCR else bws)
      in if length payload > 2 ^ 32 - 1 then Inl MONAD_EVENT_RECORD_ERROR_OVERFLOW_4GB
         else if of_nat (length payload) \<ge> bsz - MONAD_EVENT_WINDOW_INCR
         then Inl MONAD_EVENT_RECORD_ERROR_OVERFLOW_EXPIRE
         else Inr
           \<lparr>hdr_at = (hdr_at m)(header event_ring :=
                hdr\<lparr>control := \<lparr>last_seqno = s, next_payload_byte = p_end,
                                  buffer_window_start = bws'\<rparr>\<rparr>),
            desc_at = (\<lambda>p i. if p = descriptors event_ring \<and> i = slot
                              then \<lparr>seqno = s, event_type = etype,
                                    payload_size = of_nat (length payload),
                                    record_epoch_nanos = epoch_nanos,
                                    payload_buf_offset = off, content_ext = ext\<rparr>
                              else desc_at m p i),
            byte_at = write_payload (byte_at m) (payload_buf event_ring) bsz off payload\<rparr>)"

subsection \<open>A concrete ring\<close>

text \<open>
  The ring of the first scenarios of the specification: \<open>2 ^ 16\<close> descriptors, a payload
  buffer of \<open>2 ^ 27\<close> bytes, content type \<open>TEST\<close>, and one event of type 2 with the payload
  \<open>DE AD BE EF\<close>.
\<close>

definition ex_ring :: monad_event_ring where
  "ex_ring =
     \<lparr>mmap_prot = 1, header = 0x1000, descriptors = 0x2000, payload_buf = 0x10000000,
      context_area = 0x20000000, desc_capacity_mask = 0xFFFF, payload_buf_mask = 0x7FFFFFF\<rparr>"

definition ex_header :: "u64 \<Rightarrow> u64 \<Rightarrow> u64 \<Rightarrow> monad_event_ring_header" where
  "ex_header ls npb bws =
     \<lparr>magic = MONAD_EVENT_RING_HEADER_VERSION,
      content_type = MONAD_EVENT_CONTENT_TYPE_TEST,
      schema_hash = replicate 32 0,
      size_s = \<lparr>descriptor_capacity = 0x10000, payload_buf_size = 0x8000000,
                context_area_size = 0\<rparr>,
      control = \<lparr>last_seqno = ls, next_payload_byte = npb, buffer_window_start = bws\<rparr>\<rparr>"

definition ex_event1 :: monad_event_descriptor where
  "ex_event1 =
     \<lparr>seqno = 1, event_type = 2, payload_size = 4, record_epoch_nanos = 1000,
      payload_buf_offset = 0, content_ext = [0, 0, 0, 0]\<rparr>"

text \<open>The freshly initialised ring: no event yet.\<close>

definition ex_shm_fresh :: shm where
  "ex_shm_fresh =
     \<lparr>hdr_at = (\<lambda>_. ex_header 0 0 0),
      desc_at = (\<lambda>_ _. zero_descriptor),
      byte_at = (\<lambda>_. 0)\<rparr>"

text \<open>
  After the first event: slot 0 holds it, its four payload bytes are at the start of the
  payload buffer, and the four bytes after them hold \<open>11 22 33 44\<close>.
\<close>

definition ex_payload :: "addr \<Rightarrow> u8" where
  "ex_payload =
     (\<lambda>_. 0)(0x10000000 := 0xDE, 0x10000001 := 0xAD, 0x10000002 := 0xBE, 0x10000003 := 0xEF,
              0x10000004 := 0x11, 0x10000005 := 0x22, 0x10000006 := 0x33, 0x10000007 := 0x44)"

definition ex_shm_event1 :: shm where
  "ex_shm_event1 =
     \<lparr>hdr_at = (\<lambda>_. ex_header 1 4 0),
      desc_at = (\<lambda>p i. if p = 0x2000 \<and> i = 0 then ex_event1 else zero_descriptor),
      byte_at = ex_payload\<rparr>"

text \<open>
  After 130 events of one MiB each (the wrap-around scenario): the window has moved past
  offset 0 and the start of the payload buffer has been written again.
\<close>

definition ex_shm_wrapped :: shm where
  "ex_shm_wrapped =
     \<lparr>hdr_at = (\<lambda>_. ex_header 130 136314880 18874368),
      desc_at = (\<lambda>p i. if p = 0x2000 \<and> i = 0 then ex_event1 else zero_descriptor),
      byte_at = (\<lambda>_. 0x99)\<rparr>"

text \<open>The caller's private memory before a call, and a descriptor the caller holds.\<close>

definition ex_mem :: "addr \<Rightarrow> u8" where
  "ex_mem = (\<lambda>_. 0x55)"

definition ex_out :: monad_event_descriptor where
  "ex_out =
     \<lparr>seqno = 7, event_type = 3, payload_size = 0, record_epoch_nanos = 5,
      payload_buf_offset = 64, content_ext = [1, 2, 3, 4]\<rparr>"

section \<open>Auxiliary facts\<close>

text \<open>Masking with \<open>2 ^ k - 1\<close> is the remainder modulo \<open>2 ^ k\<close>.\<close>

lemma and_mask_mod: "(x::u64) AND (2 ^ k - 1) = x mod 2 ^ k"
  by (simp flip: mask_eq_exp_minus_1 take_bit_eq_mask add: take_bit_eq_mod)

lemma of_nat_neq: "i < n \<Longrightarrow> n < 2 ^ 64 \<Longrightarrow> (of_nat n :: u64) \<noteq> of_nat i"
  by (simp add: word_of_nat_eq_iff take_bit_nat_eq_self)

lemma unat_le_2p64: "unat (n::u64) \<le> 2 ^ 64"
  using unsigned_less [of n, where ?'a = nat] by simp

text \<open>
  \<open>memcpy\<close> stores source byte \<open>i\<close> at destination byte \<open>i\<close> for every \<open>i < n\<close>, and changes
  no other address. A count is below \<open>2 ^ 64\<close>, so the \<open>n\<close> destination addresses are
  distinct.
\<close>

lemma memcpy_inside:
  "n \<le> 2 ^ 64 \<Longrightarrow> i < n \<Longrightarrow>
   memcpy dmem dst smem src n (dst + of_nat i) = smem (src + of_nat i)"
proof (induction n)
  case 0
  then show ?case by simp
next
  case (Suc n)
  show ?case
  proof (cases "i = n")
    case True
    then show ?thesis by simp
  next
    case False
    with Suc.prems have lt: "i < n" and b: "n < 2 ^ 64" by simp_all
    have "(of_nat n :: u64) \<noteq> of_nat i"
      using lt b by (rule of_nat_neq)
    with Suc.IH lt b show ?thesis by simp
  qed
qed

lemma memcpy_outside:
  "(\<forall>i<n. a \<noteq> dst + of_nat i) \<Longrightarrow> memcpy dmem dst smem src n a = dmem a"
  by (induction n) auto

lemmas ex_defs = ex_ring_def ex_header_def ex_event1_def ex_shm_fresh_def ex_payload_def
  ex_shm_event1_def ex_shm_wrapped_def ex_mem_def ex_out_def zero_descriptor_def

lemmas shift_defs = MONAD_EVENT_MIN_DESCRIPTORS_SHIFT_def MONAD_EVENT_MAX_DESCRIPTORS_SHIFT_def
  MONAD_EVENT_MIN_PAYLOAD_BUF_SHIFT_def MONAD_EVENT_MAX_PAYLOAD_BUF_SHIFT_def

text \<open>The range tests on the shifts, read as natural numbers.\<close>

lemma shift_in_range:
  "\<not> (ds < MONAD_EVENT_MIN_DESCRIPTORS_SHIFT \<or> ds > MONAD_EVENT_MAX_DESCRIPTORS_SHIFT) \<longleftrightarrow>
     16 \<le> unat ds \<and> unat ds \<le> 32"
  "\<not> (ps < MONAD_EVENT_MIN_PAYLOAD_BUF_SHIFT \<or> ps > MONAD_EVENT_MAX_PAYLOAD_BUF_SHIFT) \<longleftrightarrow>
     27 \<le> unat ps \<and> unat ps \<le> 40"
  by (auto simp: shift_defs word_less_nat_alt)

text \<open>A power of two below \<open>2 ^ 64\<close> does not wrap in a 64-bit word.\<close>

lemma unat_2p64: "n < 64 \<Longrightarrow> unat (2 ^ n :: u64) = 2 ^ n"
proof -
  assume n: "n < 64"
  have "unat (of_nat (2 ^ n) :: u64) = 2 ^ n mod 2 ^ 64"
    by (simp only: unat_of_nat) simp
  moreover have "(2::nat) ^ n < 2 ^ 64"
    using n by (intro power_strict_increasing) simp_all
  ultimately show ?thesis by simp
qed

lemmas rec_defs = recorder_record_def round_up_align_def MONAD_EVENT_PAYLOAD_ALIGN_def
  MONAD_EVENT_WINDOW_INCR_def

text \<open>
  When the slot holds the same descriptor at the copy and at the load, a true result of
  \<open>monad_event_ring_try_copy\<close> returns the descriptor that the slot holds at the load, and
  its \<open>seqno\<close> is the one asked for.
\<close>

lemma try_copy_same_slot:
  assumes "desc_at m_copy (descriptors event_ring) ((sq - 1) AND desc_capacity_mask event_ring)
         = desc_at m_load (descriptors event_ring) ((sq - 1) AND desc_capacity_mask event_ring)"
    and "fst (monad_event_ring_try_copy m_copy m_load event_ring sq event)"
  shows "snd (monad_event_ring_try_copy m_copy m_load event_ring sq event)
         = desc_at m_load (descriptors event_ring) ((sq - 1) AND desc_capacity_mask event_ring)
       \<and> seqno (snd (monad_event_ring_try_copy m_copy m_load event_ring sq event)) = sq"
  using assms by (auto simp: monad_event_ring_try_copy_def Let_def split: if_splits)

section \<open>The reader functions\<close>

text \<open>
  C1. The claim: if \<open>monad_event_ring_try_copy\<close> loads \<open>seqno = s\<close> at slot \<open>(s - 1) mod
  capacity\<close> and returns the copied descriptor, that copy is the descriptor the writer
  produced for event \<open>s\<close>, for every interleaving with the writer. The function copies the
  slot before it loads \<open>seqno\<close>, so it fails when the writer publishes the event between
  the two accesses. On the fresh concrete ring the writer records event 1 (type 2, payload
  \<open>DE AD BE EF\<close>): it is not dropped, \<open>last_seqno\<close> becomes 1, the payload is in the buffer
  and slot 0 holds the descriptor of event 1. A reader that asks for sequence number 1,
  copies slot 0 before this publication and loads \<open>seqno\<close> after it gets true, and its copy
  is the zeroed descriptor of the never-written slot, not the descriptor of event 1.
\<close>

theorem try_copy_true_before_publication:
  "\<not> isl (recorder_record ex_ring ex_shm_fresh 2 [0xDE, 0xAD, 0xBE, 0xEF] 1000 [0, 0, 0, 0]) \<and>
   last_seqno (control (hdr_at
     (projr (recorder_record ex_ring ex_shm_fresh 2 [0xDE, 0xAD, 0xBE, 0xEF] 1000 [0, 0, 0, 0]))
     (header ex_ring))) = 1 \<and>
   byte_at
     (projr (recorder_record ex_ring ex_shm_fresh 2 [0xDE, 0xAD, 0xBE, 0xEF] 1000 [0, 0, 0, 0]))
     (payload_buf ex_ring + 3) = 0xEF \<and>
   desc_at
     (projr (recorder_record ex_ring ex_shm_fresh 2 [0xDE, 0xAD, 0xBE, 0xEF] 1000 [0, 0, 0, 0]))
     (descriptors ex_ring) ((1 - 1) AND desc_capacity_mask ex_ring) = ex_event1 \<and>
   monad_event_ring_try_copy ex_shm_fresh
     (projr (recorder_record ex_ring ex_shm_fresh 2 [0xDE, 0xAD, 0xBE, 0xEF] 1000 [0, 0, 0, 0]))
     ex_ring 1 ex_out = (True, zero_descriptor) \<and>
   zero_descriptor \<noteq> ex_event1"
  by (simp add: rec_defs monad_event_ring_try_copy_def Let_def ex_defs)

text \<open>
  C2. Let the handle have \<open>desc_capacity_mask = cap - 1\<close> for a descriptor capacity \<open>cap\<close>
  that is a power of two, as the mapping derives it. Then
  \<open>monad_event_ring_try_copy(ring, s, out)\<close> returns false and leaves \<open>out\<close> alone when
  \<open>s = 0\<close>. Otherwise it copies the descriptor at slot \<open>(s - 1) mod cap\<close> into \<open>out\<close>, then
  loads the \<open>seqno\<close> of that slot, and returns true exactly when the loaded \<open>seqno\<close> equals
  \<open>s\<close>. The copy reads the shared memory \<open>m_copy\<close>, the load the shared memory \<open>m_load\<close>.
\<close>

theorem try_copy_spec:
  assumes "k < 64" and "cap = 2 ^ k" and "desc_capacity_mask event_ring = cap - 1"
  shows "monad_event_ring_try_copy m_copy m_load event_ring sq event =
    (if sq = 0 then (False, event)
     else (seqno (desc_at m_load (descriptors event_ring) ((sq - 1) mod cap)) = sq,
           desc_at m_copy (descriptors event_ring) ((sq - 1) mod cap)))"
  using assms by (simp add: monad_event_ring_try_copy_def and_mask_mod Let_def)

text \<open>
  On the concrete ring: sequence number 1 is copied once the event is published, is refused
  on the fresh ring (after the slot was copied), and sequence number 0 is refused without a
  copy.
\<close>

theorem try_copy_spec_witness:
  "(16::nat) < 64 \<and> (0x10000::u64) = 2 ^ 16 \<and> desc_capacity_mask ex_ring = 0x10000 - 1 \<and>
   monad_event_ring_try_copy ex_shm_event1 ex_shm_event1 ex_ring 1 ex_out = (True, ex_event1) \<and>
   monad_event_ring_try_copy ex_shm_fresh ex_shm_fresh ex_ring 1 ex_out = (False, zero_descriptor) \<and>
   monad_event_ring_try_copy ex_shm_event1 ex_shm_event1 ex_ring 0 ex_out = (False, ex_out)"
proof -
  have h: "(16::nat) < 64" "(0x10000::u64) = 2 ^ 16" "desc_capacity_mask ex_ring = 0x10000 - 1"
    by (simp_all add: ex_ring_def)
  show ?thesis
    using h try_copy_spec [OF h, of ex_shm_event1 ex_shm_event1 1 ex_out]
      try_copy_spec [OF h, of ex_shm_fresh ex_shm_fresh 1 ex_out]
      try_copy_spec [OF h, of ex_shm_event1 ex_shm_event1 0 ex_out]
    by (simp add: ex_defs)
qed

text \<open>
  C3. \<open>monad_event_ring_payload_memcpy\<close> follows the double-check protocol. If the window
  check fails before the copy, it returns \<open>nullptr\<close> and the caller's memory is unchanged.
  Otherwise it copies \<open>n\<close> bytes from the address \<open>monad_event_ring_payload_peek\<close> gives:
  byte \<open>i\<close> of \<open>dst\<close> is byte \<open>i\<close> from that address for every \<open>i < n\<close>, and no other
  byte of the caller's memory changes. It then checks the window again, and returns
  \<open>nullptr\<close> if that check fails and \<open>dst\<close> if it succeeds. So the result is \<open>nullptr\<close>
  iff at least one of the two checks reports expiration. The first check reads the shared
  memory \<open>m1\<close>, the copy \<open>m2\<close>, the second check \<open>m3\<close>.
\<close>

theorem payload_memcpy_double_check:
  "monad_event_ring_payload_memcpy m1 m2 m3 event_ring event mem dst n =
    (if monad_event_ring_payload_check m1 event_ring event
     then (if monad_event_ring_payload_check m3 event_ring event then Some dst else None,
           memcpy mem dst (byte_at m2) (monad_event_ring_payload_peek event_ring event) (unat n))
     else (None, mem))
  \<and> (fst (monad_event_ring_payload_memcpy m1 m2 m3 event_ring event mem dst n) = None \<longleftrightarrow>
       \<not> monad_event_ring_payload_check m1 event_ring event \<or>
       \<not> monad_event_ring_payload_check m3 event_ring event)
  \<and> (monad_event_ring_payload_check m1 event_ring event \<longrightarrow>
       (\<forall>i<unat n.
          snd (monad_event_ring_payload_memcpy m1 m2 m3 event_ring event mem dst n)
            (dst + of_nat i) =
          byte_at m2 (monad_event_ring_payload_peek event_ring event + of_nat i)) \<and>
       (\<forall>a. (\<forall>i<unat n. a \<noteq> dst + of_nat i) \<longrightarrow>
          snd (monad_event_ring_payload_memcpy m1 m2 m3 event_ring event mem dst n) a = mem a))
  \<and> (\<not> monad_event_ring_payload_check m1 event_ring event \<longrightarrow>
       snd (monad_event_ring_payload_memcpy m1 m2 m3 event_ring event mem dst n) = mem)"
proof -
  let ?r = "monad_event_ring_payload_memcpy m1 m2 m3 event_ring event mem dst n"
  let ?src = "monad_event_ring_payload_peek event_ring event"
  have eq: "?r =
    (if monad_event_ring_payload_check m1 event_ring event
     then (if monad_event_ring_payload_check m3 event_ring event then Some dst else None,
           memcpy mem dst (byte_at m2) ?src (unat n))
     else (None, mem))"
    by (simp add: monad_event_ring_payload_memcpy_def Let_def)
  have none: "fst ?r = None \<longleftrightarrow>
       \<not> monad_event_ring_payload_check m1 event_ring event \<or>
       \<not> monad_event_ring_payload_check m3 event_ring event"
    by (simp add: eq)
  have bytes: "monad_event_ring_payload_check m1 event_ring event \<longrightarrow>
       (\<forall>i<unat n. snd ?r (dst + of_nat i) = byte_at m2 (?src + of_nat i)) \<and>
       (\<forall>a. (\<forall>i<unat n. a \<noteq> dst + of_nat i) \<longrightarrow> snd ?r a = mem a)"
    using memcpy_inside [OF unat_le_2p64 [of n]]
    by (simp add: eq memcpy_outside)
  have keep: "\<not> monad_event_ring_payload_check m1 event_ring event \<longrightarrow> snd ?r = mem"
    by (simp add: eq)
  from eq none bytes keep show ?thesis by blast
qed

text \<open>
  The three outcomes on the concrete ring, with the destination at address \<open>0x7000\<close> in a
  memory of bytes \<open>55\<close> and \<open>n = 4\<close>. Both checks succeed: the result is \<open>dst\<close>, the
  destination holds \<open>DE .. EF\<close> and the byte after it is untouched. The window moves past
  the payload during the copy: the result is \<open>nullptr\<close> and the destination holds the
  copied bytes. The payload has expired before the call: the result is \<open>nullptr\<close> and the
  memory is unchanged.
\<close>

theorem payload_memcpy_double_check_witness:
  "monad_event_ring_payload_check ex_shm_event1 ex_ring ex_event1 \<and>
   \<not> monad_event_ring_payload_check ex_shm_wrapped ex_ring ex_event1 \<and>
   fst (monad_event_ring_payload_memcpy ex_shm_event1 ex_shm_event1 ex_shm_event1
          ex_ring ex_event1 ex_mem 0x7000 4) = Some 0x7000 \<and>
   snd (monad_event_ring_payload_memcpy ex_shm_event1 ex_shm_event1 ex_shm_event1
          ex_ring ex_event1 ex_mem 0x7000 4) 0x7000 = 0xDE \<and>
   snd (monad_event_ring_payload_memcpy ex_shm_event1 ex_shm_event1 ex_shm_event1
          ex_ring ex_event1 ex_mem 0x7000 4) 0x7003 = 0xEF \<and>
   snd (monad_event_ring_payload_memcpy ex_shm_event1 ex_shm_event1 ex_shm_event1
          ex_ring ex_event1 ex_mem 0x7000 4) 0x7004 = 0x55 \<and>
   fst (monad_event_ring_payload_memcpy ex_shm_event1 ex_shm_event1 ex_shm_wrapped
          ex_ring ex_event1 ex_mem 0x7000 4) = None \<and>
   snd (monad_event_ring_payload_memcpy ex_shm_event1 ex_shm_event1 ex_shm_wrapped
          ex_ring ex_event1 ex_mem 0x7000 4) 0x7001 = 0xAD \<and>
   monad_event_ring_payload_memcpy ex_shm_wrapped ex_shm_wrapped ex_shm_wrapped
          ex_ring ex_event1 ex_mem 0x7000 4 = (None, ex_mem) \<and>
   ex_mem 0x7000 = 0x55"
proof -
  let ?ok = "monad_event_ring_payload_memcpy ex_shm_event1 ex_shm_event1 ex_shm_event1
          ex_ring ex_event1 ex_mem 0x7000 4"
  let ?late = "monad_event_ring_payload_memcpy ex_shm_event1 ex_shm_event1 ex_shm_wrapped
          ex_ring ex_event1 ex_mem 0x7000 4"
  let ?early = "monad_event_ring_payload_memcpy ex_shm_wrapped ex_shm_wrapped ex_shm_wrapped
          ex_ring ex_event1 ex_mem 0x7000 4"
  let ?src = "monad_event_ring_payload_peek ex_ring ex_event1"
  have c1: "monad_event_ring_payload_check ex_shm_event1 ex_ring ex_event1"
    and c2: "\<not> monad_event_ring_payload_check ex_shm_wrapped ex_ring ex_event1"
    by (simp_all add: monad_event_ring_payload_check_def ex_defs)
  note t_ok = payload_memcpy_double_check
      [of ex_shm_event1 ex_shm_event1 ex_shm_event1 ex_ring ex_event1 ex_mem "0x7000" 4]
  note t_late = payload_memcpy_double_check
      [of ex_shm_event1 ex_shm_event1 ex_shm_wrapped ex_ring ex_event1 ex_mem "0x7000" 4]
  note t_early = payload_memcpy_double_check
      [of ex_shm_wrapped ex_shm_wrapped ex_shm_wrapped ex_ring ex_event1 ex_mem "0x7000" 4]
  from t_ok c1 c2 have f_ok: "fst ?ok = Some 0x7000"
    by simp
  from t_ok c1 have ins_ok:
    "\<forall>i<unat (4::u64). snd ?ok (0x7000 + of_nat i) = byte_at ex_shm_event1 (?src + of_nat i)"
    and out_ok: "\<forall>a. (\<forall>i<unat (4::u64). a \<noteq> 0x7000 + of_nat i) \<longrightarrow> snd ?ok a = ex_mem a"
    by blast+
  from ins_ok have "snd ?ok (0x7000 + of_nat 0) = byte_at ex_shm_event1 (?src + of_nat 0)"
    by (rule allE [of _ 0]) simp
  then have b0: "snd ?ok 0x7000 = 0xDE"
    by (simp add: monad_event_ring_payload_peek_def ex_defs)
  from ins_ok have "snd ?ok (0x7000 + of_nat 3) = byte_at ex_shm_event1 (?src + of_nat 3)"
    by (rule allE [of _ 3]) simp
  then have b3: "snd ?ok 0x7003 = 0xEF"
    by (simp add: monad_event_ring_payload_peek_def ex_defs)
  have "\<forall>i<unat (4::u64). (0x7004::u64) \<noteq> 0x7000 + of_nat i"
  proof (intro allI impI)
    fix i :: nat
    assume "i < unat (4::u64)"
    then have "i \<in> {0, 1, 2, 3}" by auto
    then show "(0x7004::u64) \<noteq> 0x7000 + of_nat i" by auto
  qed
  with out_ok have "snd ?ok 0x7004 = ex_mem 0x7004" by blast
  then have b4: "snd ?ok 0x7004 = 0x55"
    by (simp add: ex_mem_def)
  from t_late c1 c2 have f_late: "fst ?late = None"
    by simp
  from t_late c1 have ins_late:
    "\<forall>i<unat (4::u64). snd ?late (0x7000 + of_nat i) = byte_at ex_shm_event1 (?src + of_nat i)"
    by blast
  from ins_late have "snd ?late (0x7000 + of_nat 1) = byte_at ex_shm_event1 (?src + of_nat 1)"
    by (rule allE [of _ 1]) simp
  then have l1: "snd ?late 0x7001 = 0xAD"
    by (simp add: monad_event_ring_payload_peek_def ex_defs)
  from t_early c2 have e: "?early = (None, ex_mem)"
    by simp
  have m: "ex_mem 0x7000 = 0x55"
    by (simp add: ex_mem_def)
  from c1 c2 f_ok b0 b3 b4 f_late l1 e m show ?thesis by blast
qed

text \<open>
  C4. \<open>monad_event_ring_payload_check(ring, desc)\<close> is true iff \<open>desc.payload_buf_offset\<close>
  is at least the \<open>buffer_window_start\<close> loaded from the control block of the ring, both
  read as unsigned integers.
\<close>

theorem payload_check_iff:
  "monad_event_ring_payload_check m event_ring event \<longleftrightarrow>
     unat (buffer_window_start (control (hdr_at m (header event_ring))))
       \<le> unat (payload_buf_offset event)"
  by (simp add: monad_event_ring_payload_check_def word_le_nat_alt)

theorem payload_check_iff_witness:
  "monad_event_ring_payload_check ex_shm_event1 ex_ring ex_event1 \<and>
   \<not> monad_event_ring_payload_check ex_shm_wrapped ex_ring ex_event1"
  using payload_check_iff [of ex_shm_event1 ex_ring ex_event1]
    payload_check_iff [of ex_shm_wrapped ex_ring ex_event1]
  by (simp add: ex_defs)

text \<open>
  C5. For a ring whose \<open>payload_buf_mask\<close> is \<open>payload_buf_size - 1\<close>, with
  \<open>payload_buf_size\<close> a power of two, \<open>monad_event_ring_payload_peek(ring, desc)\<close> is
  \<open>payload_buf + (desc.payload_buf_offset mod payload_buf_size)\<close>.
\<close>

theorem payload_peek_mod:
  "k < 64 \<Longrightarrow> bsz = 2 ^ k \<Longrightarrow> payload_buf_mask event_ring = bsz - 1 \<Longrightarrow>
   monad_event_ring_payload_peek event_ring event =
     payload_buf event_ring + (payload_buf_offset event mod bsz)"
  by (simp add: monad_event_ring_payload_peek_def and_mask_mod)

text \<open>An unwrapped offset of one buffer size plus 16 is byte 16 of the buffer.\<close>

theorem payload_peek_mod_witness:
  "(27::nat) < 64 \<and> (0x8000000::u64) = 2 ^ 27 \<and> payload_buf_mask ex_ring = 0x8000000 - 1 \<and>
   monad_event_ring_payload_peek ex_ring (ex_event1\<lparr>payload_buf_offset := 0x8000010\<rparr>)
     = 0x10000010"
proof -
  have h: "(27::nat) < 64" "(0x8000000::u64) = 2 ^ 27" "payload_buf_mask ex_ring = 0x8000000 - 1"
    by (simp_all add: ex_ring_def)
  show ?thesis
    using h payload_peek_mod [OF h, of "ex_event1\<lparr>payload_buf_offset := 0x8000010\<rparr>"]
    by (simp add: ex_defs)
qed

text \<open>
  C9. A successful \<open>monad_event_ring_payload_memcpy\<close> has copied exactly \<open>n\<close> bytes, from
  the address \<open>payload_buf + (desc.payload_buf_offset mod payload_buf_size)\<close> on: byte \<open>i\<close>
  of the destination is byte \<open>i\<close> from that address for every \<open>i < n\<close>, and no other
  byte of the caller's memory has changed. The length is not clamped to
  \<open>desc.payload_size\<close>: the outcome is the same whatever \<open>payload_size\<close> the descriptor
  holds, so for \<open>n\<close> above the payload size the caller receives the bytes that follow the
  payload.
\<close>

theorem payload_memcpy_copies_n:
  assumes "k < 64" and "bsz = 2 ^ k" and "payload_buf_mask event_ring = bsz - 1"
    and "monad_event_ring_payload_memcpy m1 m2 m3 event_ring event mem dst n = (Some p, mem')"
  shows "p = dst
    \<and> (\<forall>i<unat n. mem' (dst + of_nat i) =
          byte_at m2 (payload_buf event_ring + (payload_buf_offset event mod bsz) + of_nat i))
    \<and> (\<forall>a. (\<forall>i<unat n. a \<noteq> dst + of_nat i) \<longrightarrow> mem' a = mem a)
    \<and> (\<forall>ps. monad_event_ring_payload_memcpy m1 m2 m3 event_ring
                (event\<lparr>payload_size := ps\<rparr>) mem dst n = (Some p, mem'))"
proof -
  let ?src = "monad_event_ring_payload_peek event_ring event"
  from assms(4) have p: "p = dst"
    and m: "mem' = memcpy mem dst (byte_at m2) ?src (unat n)"
    and c1: "monad_event_ring_payload_check m1 event_ring event"
    and c3: "monad_event_ring_payload_check m3 event_ring event"
    by (auto simp: monad_event_ring_payload_memcpy_def Let_def split: if_splits)
  have src: "?src = payload_buf event_ring + (payload_buf_offset event mod bsz)"
    using assms(2,3) by (simp add: monad_event_ring_payload_peek_def and_mask_mod)
  have inside: "\<forall>i<unat n. mem' (dst + of_nat i) =
      byte_at m2 (payload_buf event_ring + (payload_buf_offset event mod bsz) + of_nat i)"
    using memcpy_inside [OF unat_le_2p64 [of n]] by (simp add: m src)
  have outside: "\<forall>a. (\<forall>i<unat n. a \<noteq> dst + of_nat i) \<longrightarrow> mem' a = mem a"
    by (simp add: m memcpy_outside)
  have indep: "\<forall>ps. monad_event_ring_payload_memcpy m1 m2 m3 event_ring
                (event\<lparr>payload_size := ps\<rparr>) mem dst n = (Some p, mem')"
    using c1 c3
    by (simp add: monad_event_ring_payload_memcpy_def monad_event_ring_payload_check_def
        monad_event_ring_payload_peek_def Let_def p m)
  from p inside outside indep show ?thesis by blast
qed

text \<open>
  The event of the concrete ring has a payload of 4 bytes. A copy of 8 bytes succeeds: byte
  3 of the destination is the last payload byte, byte 7 is the fourth byte after the payload,
  and byte 8 is untouched.
\<close>

theorem payload_memcpy_copies_n_witness:
  "(27::nat) < 64 \<and> (0x8000000::u64) = 2 ^ 27 \<and> payload_buf_mask ex_ring = 0x8000000 - 1 \<and>
   payload_size ex_event1 = 4 \<and>
   fst (monad_event_ring_payload_memcpy ex_shm_event1 ex_shm_event1 ex_shm_event1
          ex_ring ex_event1 ex_mem 0x7000 8) = Some 0x7000 \<and>
   snd (monad_event_ring_payload_memcpy ex_shm_event1 ex_shm_event1 ex_shm_event1
          ex_ring ex_event1 ex_mem 0x7000 8) 0x7003 = 0xEF \<and>
   snd (monad_event_ring_payload_memcpy ex_shm_event1 ex_shm_event1 ex_shm_event1
          ex_ring ex_event1 ex_mem 0x7000 8) 0x7007 = 0x44 \<and>
   snd (monad_event_ring_payload_memcpy ex_shm_event1 ex_shm_event1 ex_shm_event1
          ex_ring ex_event1 ex_mem 0x7000 8) 0x7008 = 0x55"
proof -
  let ?r = "monad_event_ring_payload_memcpy ex_shm_event1 ex_shm_event1 ex_shm_event1
          ex_ring ex_event1 ex_mem 0x7000 8"
  have h: "(27::nat) < 64" "(0x8000000::u64) = 2 ^ 27" "payload_buf_mask ex_ring = 0x8000000 - 1"
    by (simp_all add: ex_ring_def)
  have f: "fst ?r = Some 0x7000"
    by (simp add: monad_event_ring_payload_memcpy_def monad_event_ring_payload_check_def
        Let_def ex_defs)
  then have r: "?r = (Some 0x7000, snd ?r)"
    by (simp add: prod_eq_iff)
  note t = payload_memcpy_copies_n [OF h r]
  from t have ins: "\<forall>i<unat (8::u64). snd ?r (0x7000 + of_nat i) =
      byte_at ex_shm_event1
        (payload_buf ex_ring + (payload_buf_offset ex_event1 mod 0x8000000) + of_nat i)"
    by blast
  from t have out: "\<forall>a. (\<forall>i<unat (8::u64). a \<noteq> 0x7000 + of_nat i) \<longrightarrow> snd ?r a = ex_mem a"
    by blast
  from ins have b3: "snd ?r (0x7000 + of_nat 3) =
      byte_at ex_shm_event1
        (payload_buf ex_ring + (payload_buf_offset ex_event1 mod 0x8000000) + of_nat 3)"
    by (rule allE [of _ 3]) simp
  from ins have b7: "snd ?r (0x7000 + of_nat 7) =
      byte_at ex_shm_event1
        (payload_buf ex_ring + (payload_buf_offset ex_event1 mod 0x8000000) + of_nat 7)"
    by (rule allE [of _ 7]) simp
  have "\<forall>i<unat (8::u64). (0x7008::u64) \<noteq> 0x7000 + of_nat i"
  proof (intro allI impI)
    fix i :: nat
    assume "i < unat (8::u64)"
    then have "i < 8" by simp
    then have "i \<in> {0, 1, 2, 3, 4, 5, 6, 7}" by auto
    then show "(0x7008::u64) \<noteq> 0x7000 + of_nat i" by auto
  qed
  with out have b8: "snd ?r 0x7008 = ex_mem 0x7008" by blast
  from h f b3 b7 b8 show ?thesis
    by (simp add: ex_defs)
qed

text \<open>
  C10, as the claim states it for \<open>monad_event_ring_try_copy\<close>: the output descriptor
  would hold the slot's content whenever the function returns false. For sequence number 0
  the function returns false before it reads any slot, and the caller's descriptor keeps
  its value, which is not that of the slot.
\<close>

theorem try_copy_zero_keeps_output:
  "fst (monad_event_ring_try_copy ex_shm_event1 ex_shm_event1 ex_ring 0 ex_out) = False \<and>
   snd (monad_event_ring_try_copy ex_shm_event1 ex_shm_event1 ex_ring 0 ex_out) = ex_out \<and>
   ex_out \<noteq>
     desc_at ex_shm_event1 (descriptors ex_ring) ((0 - 1) AND desc_capacity_mask ex_ring)"
  by (simp add: monad_event_ring_try_copy_def ex_defs)

text \<open>
  C10, amended. \<open>monad_event_ring_payload_memcpy\<close> is not atomic in \<open>dst\<close> on failure:
  when it returns \<open>nullptr\<close> because the first window check fails, the caller's memory is
  unchanged; when it returns \<open>nullptr\<close> because the second window check fails, the \<open>n\<close>
  bytes of \<open>dst\<close> have already been overwritten with the bytes of the source. Likewise
  \<open>monad_event_ring_try_copy\<close>, called with a sequence number other than 0, has overwritten
  the caller's output descriptor with the content of the slot when it returns false; called
  with sequence number 0 it returns false and leaves the output descriptor unchanged.
\<close>

theorem failure_effects:
  "(\<not> monad_event_ring_payload_check m1 event_ring event \<longrightarrow>
      monad_event_ring_payload_memcpy m1 m2 m3 event_ring event mem dst n = (None, mem))
   \<and> (monad_event_ring_payload_check m1 event_ring event \<and>
      \<not> monad_event_ring_payload_check m3 event_ring event \<longrightarrow>
        fst (monad_event_ring_payload_memcpy m1 m2 m3 event_ring event mem dst n) = None \<and>
        (\<forall>i<unat n.
           snd (monad_event_ring_payload_memcpy m1 m2 m3 event_ring event mem dst n)
             (dst + of_nat i) =
           byte_at m2 (monad_event_ring_payload_peek event_ring event + of_nat i)))
   \<and> (sq \<noteq> 0 \<and> \<not> fst (monad_event_ring_try_copy m_copy m_load event_ring sq out) \<longrightarrow>
        snd (monad_event_ring_try_copy m_copy m_load event_ring sq out) =
          desc_at m_copy (descriptors event_ring) ((sq - 1) AND desc_capacity_mask event_ring))
   \<and> monad_event_ring_try_copy m_copy m_load event_ring 0 out = (False, out)"
proof -
  have a: "\<not> monad_event_ring_payload_check m1 event_ring event \<longrightarrow>
      monad_event_ring_payload_memcpy m1 m2 m3 event_ring event mem dst n = (None, mem)"
    by (simp add: monad_event_ring_payload_memcpy_def)
  have b: "monad_event_ring_payload_check m1 event_ring event \<and>
      \<not> monad_event_ring_payload_check m3 event_ring event \<longrightarrow>
        fst (monad_event_ring_payload_memcpy m1 m2 m3 event_ring event mem dst n) = None \<and>
        (\<forall>i<unat n.
           snd (monad_event_ring_payload_memcpy m1 m2 m3 event_ring event mem dst n)
             (dst + of_nat i) =
           byte_at m2 (monad_event_ring_payload_peek event_ring event + of_nat i))"
    using memcpy_inside [OF unat_le_2p64 [of n]]
    by (simp add: monad_event_ring_payload_memcpy_def Let_def)
  have c: "sq \<noteq> 0 \<and> \<not> fst (monad_event_ring_try_copy m_copy m_load event_ring sq out) \<longrightarrow>
        snd (monad_event_ring_try_copy m_copy m_load event_ring sq out) =
          desc_at m_copy (descriptors event_ring) ((sq - 1) AND desc_capacity_mask event_ring)"
    by (simp add: monad_event_ring_try_copy_def Let_def)
  have d: "monad_event_ring_try_copy m_copy m_load event_ring 0 out = (False, out)"
    by (simp add: monad_event_ring_try_copy_def)
  from a b c d show ?thesis by blast
qed

text \<open>
  On the concrete ring: a copy of an expired payload leaves the destination alone; a copy
  during which the window moves past the payload returns \<open>nullptr\<close> with the first payload
  byte already in the destination; and a request for sequence number \<open>2 ^ 16 + 1\<close>, whose
  slot still holds event 1, returns false with event 1 in the output descriptor.
\<close>

theorem failure_effects_witness:
  "\<not> monad_event_ring_payload_check ex_shm_wrapped ex_ring ex_event1 \<and>
   monad_event_ring_payload_memcpy ex_shm_wrapped ex_shm_wrapped ex_shm_wrapped
      ex_ring ex_event1 ex_mem 0x7000 4 = (None, ex_mem) \<and>
   monad_event_ring_payload_check ex_shm_event1 ex_ring ex_event1 \<and>
   fst (monad_event_ring_payload_memcpy ex_shm_event1 ex_shm_event1 ex_shm_wrapped
          ex_ring ex_event1 ex_mem 0x7000 4) = None \<and>
   ex_mem 0x7000 = 0x55 \<and>
   snd (monad_event_ring_payload_memcpy ex_shm_event1 ex_shm_event1 ex_shm_wrapped
          ex_ring ex_event1 ex_mem 0x7000 4) 0x7000 = 0xDE \<and>
   (0x10001::u64) \<noteq> 0 \<and>
   monad_event_ring_try_copy ex_shm_event1 ex_shm_event1 ex_ring 0x10001 ex_out
     = (False, ex_event1) \<and>
   ex_out \<noteq> ex_event1"
proof -
  let ?r = "monad_event_ring_payload_memcpy ex_shm_event1 ex_shm_event1 ex_shm_wrapped
          ex_ring ex_event1 ex_mem 0x7000 4"
  let ?t = "monad_event_ring_try_copy ex_shm_event1 ex_shm_event1 ex_ring 0x10001 ex_out"
  have c1: "\<not> monad_event_ring_payload_check ex_shm_wrapped ex_ring ex_event1"
    and c2: "monad_event_ring_payload_check ex_shm_event1 ex_ring ex_event1"
    by (simp_all add: monad_event_ring_payload_check_def ex_defs)
  note t1 = failure_effects [of ex_shm_wrapped ex_ring ex_event1 ex_shm_wrapped ex_shm_wrapped
      ex_mem "0x7000" 4]
  note t2 = failure_effects [of ex_shm_event1 ex_ring ex_event1 ex_shm_event1 ex_shm_wrapped
      ex_mem "0x7000" 4 "0x10001" ex_shm_event1 ex_shm_event1 ex_out]
  from t1 c1 have w1:
    "monad_event_ring_payload_memcpy ex_shm_wrapped ex_shm_wrapped ex_shm_wrapped
      ex_ring ex_event1 ex_mem 0x7000 4 = (None, ex_mem)"
    by blast
  from t2 c1 c2 have w2: "fst ?r = None"
    and ins: "\<forall>i<unat (4::u64). snd ?r (0x7000 + of_nat i) =
           byte_at ex_shm_event1 (monad_event_ring_payload_peek ex_ring ex_event1 + of_nat i)"
    by blast+
  from ins have "snd ?r (0x7000 + of_nat 0) =
      byte_at ex_shm_event1 (monad_event_ring_payload_peek ex_ring ex_event1 + of_nat 0)"
    by (rule allE [of _ 0]) simp
  then have w3: "snd ?r 0x7000 = 0xDE"
    by (simp add: monad_event_ring_payload_peek_def ex_defs)
  have f: "\<not> fst ?t"
    by (simp add: monad_event_ring_try_copy_def Let_def ex_defs)
  with t2 have "snd ?t =
      desc_at ex_shm_event1 (descriptors ex_ring) ((0x10001 - 1) AND desc_capacity_mask ex_ring)"
    by simp
  then have "snd ?t = ex_event1"
    by (simp add: ex_ring_def ex_shm_event1_def)
  with f have w4: "?t = (False, ex_event1)"
    by (simp add: prod_eq_iff)
  have w5: "ex_out \<noteq> ex_event1" "ex_mem 0x7000 = 0x55"
    by (simp_all add: ex_defs)
  from c1 c2 w1 w2 w3 w4 w5 show ?thesis by simp
qed

section \<open>Sizes and the header magic\<close>

text \<open>
  C7. \<open>monad_event_ring_init_size\<close> accepts a descriptors shift only in the range 16 to 32
  and a payload buffer shift only in the range 27 to 40, and fails with \<open>InvalidSize\<close> for
  every shift outside these bounds. When it succeeds, \<open>descriptor_capacity\<close> and
  \<open>payload_buf_size\<close> are two to the power of their shift, a value that fits in 64 bits.
\<close>

theorem init_size_bounds:
  "(monad_event_ring_init_size large_page ds ps clp = Inl InvalidSize \<longleftrightarrow>
      \<not> (16 \<le> unat ds \<and> unat ds \<le> 32 \<and> 27 \<le> unat ps \<and> unat ps \<le> 40))
   \<and> (\<forall>sz. monad_event_ring_init_size large_page ds ps clp = Inr sz \<longleftrightarrow>
         16 \<le> unat ds \<and> unat ds \<le> 32 \<and> 27 \<le> unat ps \<and> unat ps \<le> 40 \<and>
         sz = \<lparr>descriptor_capacity = 2 ^ unat ds, payload_buf_size = 2 ^ unat ps,
               context_area_size = ucast clp * large_page\<rparr>)
   \<and> (16 \<le> unat ds \<and> unat ds \<le> 32 \<longrightarrow> unat (2 ^ unat ds :: u64) = 2 ^ unat ds)
   \<and> (27 \<le> unat ps \<and> unat ps \<le> 40 \<longrightarrow> unat (2 ^ unat ps :: u64) = 2 ^ unat ps)"
  using shift_in_range(1) [of ds] shift_in_range(2) [of ps]
  by (auto simp: monad_event_ring_init_size_def unat_2p64)

text \<open>The smallest ring is accepted; each shift one step outside its range is refused.\<close>

theorem init_size_bounds_witness:
  "monad_event_ring_init_size 0x200000 16 27 1 =
     Inr \<lparr>descriptor_capacity = 0x10000, payload_buf_size = 0x8000000,
          context_area_size = 0x200000\<rparr>
   \<and> monad_event_ring_init_size 0x200000 15 27 1 = Inl InvalidSize
   \<and> monad_event_ring_init_size 0x200000 33 27 1 = Inl InvalidSize
   \<and> monad_event_ring_init_size 0x200000 16 26 1 = Inl InvalidSize
   \<and> monad_event_ring_init_size 0x200000 16 41 1 = Inl InvalidSize"
  using init_size_bounds [of "0x200000" 16 27 1] init_size_bounds [of "0x200000" 15 27 1]
    init_size_bounds [of "0x200000" 33 27 1] init_size_bounds [of "0x200000" 16 26 1]
    init_size_bounds [of "0x200000" 16 41 1]
  by simp

text \<open>
  C8. The header magic is the six ASCII octets \<open>R I N G 0 1\<close>, the last two being the
  digits of the current version. File initialisation writes them as the magic of the
  header, which is the first six bytes of the header in the file, and the mapping accepts a
  header iff its magic is exactly these octets.
\<close>

theorem header_magic_RING01:
  "MONAD_EVENT_RING_HEADER_VERSION = [0x52, 0x49, 0x4E, 0x47, 0x30, 0x31]
   \<and> MONAD_EVENT_RING_HEADER_VERSION = map of_char ''RING01''
   \<and> drop 4 MONAD_EVENT_RING_HEADER_VERSION = map of_char ''01''
   \<and> (\<forall>img. monad_event_ring_init_file ring_size ctype hash io_failure old = Inr img \<longrightarrow>
          magic (image_header img) = map of_char ''RING01'' \<and>
          take 6 (header_bytes (image_header img)) = map of_char ''RING01'')
   \<and> (mmap_verify_magic h = Inr () \<longleftrightarrow> magic h = map of_char ''RING01'')"
  by (auto simp: MONAD_EVENT_RING_HEADER_VERSION_def monad_event_ring_init_file_def
      mmap_verify_magic_def header_bytes_def split: option.splits if_splits)

text \<open>
  Initialising a zeroed file region gives the header of the concrete ring; the mapping
  accepts it and refuses a header of version \<open>02\<close>.
\<close>

theorem header_magic_RING01_witness:
  "monad_event_ring_init_file (size_s (ex_header 0 0 0)) MONAD_EVENT_CONTENT_TYPE_TEST
      (replicate 32 0) None \<lparr>image_header = ex_header 0 0 0\<lparr>magic := [0, 0, 0, 0, 0, 0]\<rparr>,
                              image_descriptors = (\<lambda>_. zero_descriptor)\<rparr>
     = Inr \<lparr>image_header = ex_header 0 0 0, image_descriptors = (\<lambda>_. zero_descriptor)\<rparr>
   \<and> take 6 (header_bytes (ex_header 0 0 0)) = [0x52, 0x49, 0x4E, 0x47, 0x30, 0x31]
   \<and> mmap_verify_magic (ex_header 0 0 0) = Inr ()
   \<and> mmap_verify_magic (ex_header 0 0 0\<lparr>magic := map of_char ''RING02''\<rparr>) = Inl BadMagic"
proof -
  let ?old = "\<lparr>image_header = ex_header 0 0 0\<lparr>magic := [0, 0, 0, 0, 0, 0]\<rparr>,
               image_descriptors = (\<lambda>_. zero_descriptor)\<rparr>"
  let ?new = "\<lparr>image_header = ex_header 0 0 0, image_descriptors = (\<lambda>_. zero_descriptor)\<rparr>"
  have w: "monad_event_ring_init_file (size_s (ex_header 0 0 0)) MONAD_EVENT_CONTENT_TYPE_TEST
      (replicate 32 0) None ?old = Inr ?new"
    by (simp add: monad_event_ring_init_file_def ex_header_def
        MONAD_EVENT_RING_HEADER_VERSION_def)
  note t = header_magic_RING01 [of "size_s (ex_header 0 0 0)" MONAD_EVENT_CONTENT_TYPE_TEST
      "replicate 32 0" None ?old]
  from t w have "take 6 (header_bytes (ex_header 0 0 0)) = map of_char ''RING01''"
    by simp
  moreover from header_magic_RING01 [of _ _ _ _ _ "ex_header 0 0 0"]
  have "mmap_verify_magic (ex_header 0 0 0) = Inr ()"
    by (simp add: ex_header_def)
  moreover from header_magic_RING01
    [of _ _ _ _ _ "ex_header 0 0 0\<lparr>magic := map of_char ''RING02''\<rparr>"]
  have "mmap_verify_magic (ex_header 0 0 0\<lparr>magic := map of_char ''RING02''\<rparr>) = Inl BadMagic"
    by (cases "mmap_verify_magic (ex_header 0 0 0\<lparr>magic := map of_char ''RING02''\<rparr>)")
       (auto simp: mmap_verify_magic_def split: if_splits)
  ultimately show ?thesis using w by simp
qed

end
